theory Spec2Isabelle
  imports Complex_Main
begin

section \<open>Python values\<close>

text \<open>
  The values that cross the HTTP boundary are the Python values \<open>json.loads\<close> builds:
  \<open>None\<close>, booleans, numbers, strings, lists and dictionaries. A string is a list of
  characters, each character standing for the code point of its number (code points
  below 256). A number is the real it denotes (Python's \<open>int\<close> and finite \<open>float\<close>),
  and a dictionary is the list of its items, whose keys are distinct.
\<close>

datatype json =
    JNull
  | JBool bool
  | JNum real
  | JStr string
  | JArr "json list"
  | JObj "(string \<times> json) list"

text \<open>The exceptions the two source files can raise, and any exception of the summarizer.\<close>

datatype pyexn =
    AttributeError
  | TypeError
  | IndexError
  | KeyError
  | ZeroDivisionError
  | Exception string

text \<open>Python's truth value of an object, as \<open>not text\<close> and \<open>request.json or {}\<close> test it.\<close>

fun truthy :: "json \<Rightarrow> bool" where
  "truthy JNull = False"
| "truthy (JBool b) = b"
| "truthy (JNum r) = (r \<noteq> 0)"
| "truthy (JStr s) = (s \<noteq> [])"
| "truthy (JArr xs) = (xs \<noteq> [])"
| "truthy (JObj kvs) = (kvs \<noteq> [])"

text \<open>\<open>d.get(key, default)\<close>: only a dictionary has the method.\<close>

fun py_get :: "json \<Rightarrow> string \<Rightarrow> json \<Rightarrow> pyexn + json" where
  "py_get (JObj kvs) k dflt = Inr (case map_of kvs k of None \<Rightarrow> dflt | Some v \<Rightarrow> v)"
| "py_get _ k dflt = Inl AttributeError"

text \<open>
  \<open>x <= 60\<close> against an integer literal: numbers compare by value, a boolean is the
  integer 0 or 1, and every other type raises \<open>TypeError\<close>.
\<close>

fun py_le_int :: "json \<Rightarrow> int \<Rightarrow> pyexn + bool" where
  "py_le_int (JNum r) n = Inr (r \<le> of_int n)"
| "py_le_int (JBool b) n = Inr ((if b then 1 else 0) \<le> n)"
| "py_le_int _ n = Inl TypeError"

subsection \<open>\<open>str.split()\<close>, \<open>str.join\<close> and slices\<close>

text \<open>
  \<open>str.isspace\<close> on the code points below 256: tab to carriage return, the four
  separators 28 to 31, the space, NEL (133) and the no-break space (160).
\<close>

definition isspace :: "char \<Rightarrow> bool" where
  "isspace c =
     (let n = (of_char c :: nat)
      in (9 \<le> n \<and> n \<le> 13) \<or> (28 \<le> n \<and> n \<le> 32) \<or> n = 133 \<or> n = 160)"

text \<open>
  \<open>s.split()\<close> with no separator: the maximal runs of non-whitespace characters, in
  order; leading, trailing and repeated whitespace produce no empty word. \<open>cur\<close> is the
  word being read.
\<close>

fun split_from :: "string \<Rightarrow> string \<Rightarrow> string list" where
  "split_from cur [] = (if cur = [] then [] else [cur])"
| "split_from cur (c # cs) =
     (if isspace c
      then (if cur = [] then split_from [] cs else cur # split_from [] cs)
      else split_from (cur @ [c]) cs)"

definition str_split :: "string \<Rightarrow> string list" where
  "str_split s = split_from [] s"

fun str_join :: "string \<Rightarrow> string list \<Rightarrow> string" where
  "str_join sep [] = []"
| "str_join sep [w] = w"
| "str_join sep (w # ws) = w @ sep @ str_join sep ws"

text \<open>
  \<open>xs[i:j]\<close>: a negative index counts from the end, and both ends are clamped to the
  list.
\<close>

definition py_slice :: "'a list \<Rightarrow> int \<Rightarrow> int \<Rightarrow> 'a list" where
  "py_slice xs i j =
     (let n = int (length xs);
          lo = (if i < 0 then max (i + n) 0 else min i n);
          hi = (if j < 0 then max (j + n) 0 else min j n)
      in take (nat (hi - lo)) (drop (nat lo) xs))"

text \<open>\<open>int(x)\<close> on a float truncates towards zero.\<close>

definition py_int :: "real \<Rightarrow> int" where
  "py_int x = (if 0 \<le> x then \<lfloor>x\<rfloor> else \<lceil>x\<rceil>)"


section \<open>The duration estimator (\<open>minimal_assistant.py\<close>)\<close>


section \<open>The length gate (\<open>app.py\<close>)\<close>

text \<open>
  \<^verbatim>\<open>
  def trim_text_middle(text, ratio=0.5):
      words = text.split()
      total_words = len(words)
      if total_words <= 150:
          return text
      trim_size = int(total_words * ratio)
      start = (total_words - trim_size) // 2
      end = start + trim_size
      return " ".join(words[start:end])
  \<close>
\<close>

text \<open>
  Only a string has the method \<open>split\<close>: on any other object the first line raises
  \<open>AttributeError\<close>.
\<close>

definition trim_text_middle :: "json \<Rightarrow> real \<Rightarrow> pyexn + string" where
  "trim_text_middle text ratio =
     (case text of
        JStr s \<Rightarrow>
          (let words = str_split s;
               total_words = int (length words)
           in if total_words \<le> 150 then Inr s
              else
                (let trim_size = py_int (of_int total_words * ratio);
                     start = (total_words - trim_size) div 2;
                     end = start + trim_size
                 in Inr (str_join '' '' (py_slice words start end))))
      | _ \<Rightarrow> Inl AttributeError)"

subsection \<open>The summarizer\<close>

text \<open>
  The summarization pipeline is an external capability, a parameter of the handler. It
  is called as \<open>summarizer(text, max_length=.., min_length=.., do_sample=..)\<close> and either
  raises or returns a list of dictionaries from strings to strings. Every call the
  handler makes is recorded.
\<close>

record summarizer_call =
  call_text :: string
  max_length :: int
  min_length :: int
  do_sample :: bool

type_synonym summarizer =
  "string \<Rightarrow> int \<Rightarrow> int \<Rightarrow> bool \<Rightarrow> pyexn + (string \<times> string) list list"

text \<open>
  \<open>summarizer(trimmed_text, max_length=100, min_length=50, do_sample=False)[0]['summary_text']\<close>:
  the call, the first element of its result and that dictionary's entry.
\<close>

definition summary_text :: "summarizer \<Rightarrow> string \<Rightarrow> pyexn + string" where
  "summary_text summarizer trimmed_text =
     (case summarizer trimmed_text 100 50 False of
        Inl e \<Rightarrow> Inl e
      | Inr [] \<Rightarrow> Inl IndexError
      | Inr (d # _) \<Rightarrow>
          (case map_of d ''summary_text'' of
             None \<Rightarrow> Inl KeyError
           | Some s \<Rightarrow> Inr s))"

subsection \<open>The handler of \<open>/validate_audio\<close>\<close>

text \<open>
  \<^verbatim>\<open>
  def handle_audio_validation():
      data = request.json or {}
      text = data.get("text", "")
      length = data.get("length", 0)
      if not text:
          return jsonify({"error": "The 'text' field is missing."}), 400
      if length <= 60:
          return jsonify({"message": text})
      trimmed_text = trim_text_middle(text)
      summary = summarizer(trimmed_text, max_length=100, min_length=50,
                           do_sample=False)[0]['summary_text']
      return jsonify({"message": summary})
  \<close>
  A response is the JSON body with the HTTP status; an exception that leaves the handler
  is \<open>Inl\<close>. The first component of the result lists the summarizer calls made.
\<close>

type_synonym response = "json \<times> nat"

definition jsonify :: "(string \<times> json) list \<Rightarrow> json" where
  "jsonify d = JObj d"

definition handle_audio_validation ::
  "summarizer \<Rightarrow> json \<Rightarrow> summarizer_call list \<times> (pyexn + response)" where
  "handle_audio_validation summarizer request_json =
     (let data = (if truthy request_json then request_json else JObj [])
      in case py_get data ''text'' (JStr '''') of
           Inl e \<Rightarrow> ([], Inl e)
         | Inr text \<Rightarrow>
             (case py_get data ''length'' (JNum 0) of
                Inl e \<Rightarrow> ([], Inl e)
              | Inr length_s \<Rightarrow>
                  if \<not> truthy text
                  then ([], Inr (jsonify [(''error'', JStr ''The 'text' field is missing.'')], 400))
                  else
                    (case py_le_int length_s 60 of
                       Inl e \<Rightarrow> ([], Inl e)
                     | Inr pass_through \<Rightarrow>
                         if pass_through then ([], Inr (jsonify [(''message'', text)], 200))
                         else
                           (case trim_text_middle text (1 / 2) of
                              Inl e \<Rightarrow> ([], Inl e)
                            | Inr trimmed_text \<Rightarrow>
                                ([\<lparr>call_text = trimmed_text, max_length = 100,
                                   min_length = 50, do_sample = False\<rparr>],
                                 case summary_text summarizer trimmed_text of
                                   Inl e \<Rightarrow> Inl e
                                 | Inr summary \<Rightarrow>
                                     Inr (jsonify [(''message'', JStr summary)], 200))))))"

text \<open>
  The request the voice agent posts (\<open>validate_text_before_tts\<close>):
  \<open>json={"length": estimated_length, "text": text}\<close>; \<open>gate\<close> is the handler on it.
\<close>

definition validation_request :: "string \<Rightarrow> real \<Rightarrow> json" where
  "validation_request text estimated_length =
     JObj [(''length'', JNum estimated_length), (''text'', JStr text)]"

definition gate ::
  "summarizer \<Rightarrow> string \<Rightarrow> real \<Rightarrow> summarizer_call list \<times> (pyexn + response)" where
  "gate summarizer text estimated_length =
     handle_audio_validation summarizer (validation_request text estimated_length)"

subsection \<open>Stand-ins for the summarizer\<close>

text \<open>
  Two summarizers to run the handler on: one answers every call with a single summary
  \<open>out\<close>, the other raises on every call.
\<close>

definition fixed_summarizer :: "string \<Rightarrow> summarizer" where
  "fixed_summarizer out text max_len min_len sample = Inr [[(''summary_text'', out)]]"

definition failing_summarizer :: summarizer where
  "failing_summarizer text max_len min_len sample = Inl (Exception ''summarizer unavailable'')"

subsection \<open>Words\<close>

text \<open>A word, as \<open>split\<close> produces them: not empty, and free of whitespace.\<close>

definition is_word :: "string \<Rightarrow> bool" where
  "is_word w = (w \<noteq> [] \<and> list_all (\<lambda>c. \<not> isspace c) w)"

section \<open>The handler, case by case\<close>

lemma request_data_object:
  "(if truthy (JObj kvs) then JObj kvs else JObj []) = JObj kvs"
  by (cases kvs) simp_all

text \<open>On a JSON object the handler reads the two fields and then decides.\<close>

lemma handler_object:
  "handle_audio_validation S (JObj kvs) =
     (let text = (case map_of kvs ''text'' of None \<Rightarrow> JStr [] | Some v \<Rightarrow> v);
          length_s = (case map_of kvs ''length'' of None \<Rightarrow> JNum 0 | Some v \<Rightarrow> v)
      in if \<not> truthy text
         then ([], Inr (JObj [(''error'', JStr ''The 'text' field is missing.'')], 400))
         else case py_le_int length_s 60 of
                Inl e \<Rightarrow> ([], Inl e)
              | Inr pass_through \<Rightarrow>
                  if pass_through then ([], Inr (JObj [(''message'', text)], 200))
                  else case trim_text_middle text (1 / 2) of
                         Inl e \<Rightarrow> ([], Inl e)
                       | Inr trimmed_text \<Rightarrow>
                           ([\<lparr>call_text = trimmed_text, max_length = 100,
                              min_length = 50, do_sample = False\<rparr>],
                            case summary_text S trimmed_text of
                              Inl e \<Rightarrow> Inl e
                            | Inr summary \<Rightarrow> Inr (JObj [(''message'', JStr summary)], 200)))"
  unfolding handle_audio_validation_def request_data_object jsonify_def
    Let_def py_get.simps sum.case
  by (rule refl)

text \<open>
  The handler reads a request by its fields: the order of the fields and any further
  field do not matter.
\<close>

lemma gate_object:
  "map_of kvs ''text'' = Some (JStr text) \<Longrightarrow> map_of kvs ''length'' = Some (JNum d) \<Longrightarrow>
   handle_audio_validation S (JObj kvs) = gate S text d"
  by (simp add: gate_def validation_request_def handler_object)

lemma gate_empty_text:
  "gate S [] d = ([], Inr (JObj [(''error'', JStr ''The 'text' field is missing.'')], 400))"
  by (simp add: gate_def validation_request_def handler_object)

lemma gate_pass_through:
  "text \<noteq> [] \<Longrightarrow> d \<le> 60 \<Longrightarrow> gate S text d = ([], Inr (JObj [(''message'', JStr text)], 200))"
  by (simp add: gate_def validation_request_def handler_object)

lemma gate_reduce:
  "text \<noteq> [] \<Longrightarrow> 60 < d \<Longrightarrow> trim_text_middle (JStr text) (1 / 2) = Inr trimmed \<Longrightarrow>
   gate S text d =
     ([\<lparr>call_text = trimmed, max_length = 100, min_length = 50, do_sample = False\<rparr>],
      case summary_text S trimmed of
        Inl e \<Rightarrow> Inl e
      | Inr summary \<Rightarrow> Inr (JObj [(''message'', JStr summary)], 200))"
  by (simp add: gate_def validation_request_def handler_object)

text \<open>On a string the trim raises nothing.\<close>

lemma trim_text_middle_total: "\<exists>t. trim_text_middle (JStr s) r = Inr t"
  by (simp add: trim_text_middle_def Let_def)

lemma handler_no_body:
  "\<not> truthy body \<Longrightarrow> handle_audio_validation S body =
     ([], Inr (JObj [(''error'', JStr ''The 'text' field is missing.'')], 400))"
  by (simp add: handle_audio_validation_def jsonify_def)

text \<open>A success message is only ever the answer to a non-empty text.\<close>

lemma gate_success_nonempty_text:
  assumes "snd (gate S text d) = Inr (JObj [(''message'', m)], 200)"
  shows "text \<noteq> []"
proof
  assume "text = []"
  then have "snd (gate S text d) =
      Inr (JObj [(''error'', JStr ''The 'text' field is missing.'')], 400)"
    by (simp add: gate_empty_text)
  with assms show False by simp
qed

text \<open>The stand-ins, and the text the examples below run on.\<close>

lemma summary_text_fixed: "summary_text (fixed_summarizer out) t = Inr out"
  by (simp add: summary_text_def fixed_summarizer_def)

lemma summary_text_failing:
  "summary_text failing_summarizer t = Inl (Exception ''summarizer unavailable'')"
  by (simp add: summary_text_def failing_summarizer_def)

lemma str_split_hello: "str_split ''hello world'' = [''hello'', ''world'']"
  by (simp add: str_split_def isspace_def)

section \<open>Splitting, joining and slicing\<close>

lemma isspace_space: "isspace CHR '' ''"
  by (simp add: isspace_def)

lemma py_slice_inside:
  "0 \<le> i \<Longrightarrow> i \<le> j \<Longrightarrow> j \<le> int (length xs) \<Longrightarrow>
   py_slice xs i j = take (nat (j - i)) (drop (nat i) xs)"
  by (simp add: py_slice_def Let_def min_def)

lemma py_int_half: "0 \<le> w \<Longrightarrow> py_int (of_int w * (1 / 2)) = w div 2"
proof -
  assume "0 \<le> w"
  have "\<lfloor>real_of_int w / real_of_int 2\<rfloor> = w div 2"
    by (rule floor_divide_of_int_eq)
  with \<open>0 \<le> w\<close> show ?thesis by (simp add: py_int_def)
qed

text \<open>Every element of a split is a word.\<close>

lemma split_from_words:
  "list_all (\<lambda>c. \<not> isspace c) cur \<Longrightarrow> list_all is_word (split_from cur s)"
  by (induction s arbitrary: cur) (simp_all add: is_word_def)

lemma str_split_words: "list_all is_word (str_split s)"
  by (simp add: str_split_def split_from_words)

text \<open>Joining words by single spaces and splitting again gives the words back.\<close>

lemma split_from_word:
  "list_all (\<lambda>c. \<not> isspace c) w \<Longrightarrow> split_from cur (w @ s) = split_from (cur @ w) s"
  by (induction w arbitrary: cur) simp_all

lemma str_split_join:
  "list_all is_word ws \<Longrightarrow> str_split (str_join '' '' ws) = ws"
proof (induction "'' ''" ws rule: str_join.induct)
  case 1
  then show ?case by (simp add: str_split_def)
next
  case (2 w)
  then show ?case
    using split_from_word [of w "[]" "[]"] by (simp add: str_split_def is_word_def)
next
  case (3 w v ws)
  then have w: "w \<noteq> []" "list_all (\<lambda>c. \<not> isspace c) w" and rest: "list_all is_word (v # ws)"
    by (simp_all add: is_word_def)
  have "str_split (str_join '' '' (w # v # ws)) = split_from [] (w @ '' '' @ str_join '' '' (v # ws))"
    by (simp add: str_split_def)
  also have "\<dots> = split_from w ('' '' @ str_join '' '' (v # ws))"
    using split_from_word [OF w(2), of "[]"] by simp
  also have "\<dots> = w # str_split (str_join '' '' (v # ws))"
    using w(1) by (simp add: isspace_space str_split_def)
  finally show ?case using 3 rest by simp
qed

lemma list_all_take_drop: "list_all P xs \<Longrightarrow> list_all P (take n (drop m xs))"
  by (auto simp add: list_all_iff dest: in_set_takeD in_set_dropD)

lemma str_split_replicate:
  "str_split (concat (replicate n ''ab '')) = replicate n ''ab''"
  by (induction n) (simp_all add: str_split_def isspace_def)

text \<open>A text of at most 150 words is returned as it is.\<close>

lemma trim_short:
  "length (str_split text) \<le> 150 \<Longrightarrow> trim_text_middle (JStr text) r = Inr text"
  by (simp add: trim_text_middle_def)

text \<open>A longer text keeps its middle half.\<close>

lemma trim_text_middle_long:
  assumes "150 < length (str_split text)"
  shows "trim_text_middle (JStr text) (1 / 2) =
           Inr (str_join '' ''
             (take (length (str_split text) div 2)
               (drop ((length (str_split text) - length (str_split text) div 2) div 2)
                 (str_split text))))"
proof -
  define n where "n = length (str_split text)"
  define w where "w = int n"
  have pi: "py_int (of_int w * (1 / 2)) = w div 2"
    by (rule py_int_half) (simp add: w_def)
  have sl: "py_slice (str_split text) ((w - w div 2) div 2) ((w - w div 2) div 2 + w div 2) =
      take (nat (w div 2)) (drop (nat ((w - w div 2) div 2)) (str_split text))"
    using py_slice_inside [of "(w - w div 2) div 2" "(w - w div 2) div 2 + w div 2" "str_split text"]
    by (simp add: w_def n_def)
  have a: "nat (w div 2) = n div 2"
    by (simp add: w_def nat_div_distrib)
  have "(w - w div 2) div 2 = int ((n - n div 2) div 2)"
    by (simp add: w_def of_nat_diff zdiv_int)
  then have b: "nat ((w - w div 2) div 2) = (n - n div 2) div 2"
    by simp
  have long: "\<not> w \<le> 150"
    using assms by (simp add: w_def n_def)
  have "trim_text_middle (JStr text) (1 / 2) =
      Inr (str_join '' '' (py_slice (str_split text) ((w - w div 2) div 2)
        ((w - w div 2) div 2 + w div 2)))"
    unfolding trim_text_middle_def json.case Let_def
      w_def [symmetric, unfolded n_def] pi
    using long by simp
  then show ?thesis
    unfolding sl a b n_def .
qed

text \<open>A text of 300 words, for the examples on the reduce path.\<close>

lemma text_300_split:
  "str_split (concat (replicate 300 ''ab '')) = replicate 300 ''ab''"
  by (rule str_split_replicate)

lemma text_300_nonempty: "concat (replicate 300 ''ab '') \<noteq> []"
proof
  assume "concat (replicate 300 ''ab '') = []"
  then have "length (str_split (concat (replicate 300 ''ab ''))) = length (str_split [])"
    by (rule arg_cong)
  then show False
    unfolding text_300_split by (simp add: str_split_def)
qed

lemma trim_300_words:
  "trim_text_middle (JStr (concat (replicate 300 ''ab ''))) (1 / 2) =
     Inr (str_join '' '' (replicate 150 ''ab''))"
proof -
  have h: "150 < length (str_split (concat (replicate 300 ''ab '')))"
    unfolding text_300_split by simp
  have e: "take (length (replicate 300 ''ab'') div 2)
        (drop ((length (replicate 300 ''ab'') - length (replicate 300 ''ab'') div 2) div 2)
          (replicate 300 ''ab'')) = replicate 150 ''ab''"
    by simp
  show ?thesis
    using trim_text_middle_long [OF h] unfolding text_300_split e .
qed

section \<open>The duration estimator\<close>


section \<open>Invalid input\<close>

text \<open>
  Claim C4. A request whose \<open>text\<close> field is missing or is the empty string is
  answered, whatever its \<open>length\<close> field holds, with status 400 and the body
  \<open>{"error": "The 'text' field is missing."}\<close>; the summarizer is not called and no
  success message is returned.
\<close>

theorem missing_text_invalid_input:
  assumes "map_of kvs ''text'' = None \<or> map_of kvs ''text'' = Some (JStr [])"
  shows "handle_audio_validation S (JObj kvs) =
           ([], Inr (JObj [(''error'', JStr ''The 'text' field is missing.'')], 400))"
  using assms by (auto simp add: handler_object)

text \<open>The request \<open>{"length": 90}\<close>.\<close>

theorem missing_text_invalid_input_witness:
  "map_of [(''length'', JNum 90)] ''text'' = None
   \<and> handle_audio_validation failing_summarizer (JObj [(''length'', JNum 90)]) =
       ([], Inr (JObj [(''error'', JStr ''The 'text' field is missing.'')], 400))"
  using missing_text_invalid_input [of "[(''length'', JNum 90)]" failing_summarizer]
  by simp

section \<open>Pass-through\<close>

text \<open>
  Claim C5. For a non-empty text and an estimated duration of at most 60 seconds the
  gate answers with the text itself as the message, and calls the summarizer not at
  all.
\<close>

theorem pass_through_identity:
  assumes "text \<noteq> []" and "d \<le> 60"
  shows "gate S text d = ([], Inr (JObj [(''message'', JStr text)], 200))"
  using assms by (simp add: gate_pass_through)

theorem pass_through_identity_witness:
  "''hello world'' \<noteq> [] \<and> (15::real) \<le> 60
   \<and> gate failing_summarizer ''hello world'' 15 =
       ([], Inr (JObj [(''message'', JStr ''hello world'')], 200))"
  using pass_through_identity [of "''hello world''" 15 failing_summarizer]
  by simp

text \<open>
  Claim C10. When the request has a non-empty text and no \<open>length\<close> field, the handler
  reads the duration as 0 and answers with the text itself as the message, without an
  error about the missing field.
\<close>

theorem absent_length_passes_through:
  assumes "map_of kvs ''length'' = None"
    and "map_of kvs ''text'' = Some (JStr text)"
    and "text \<noteq> []"
  shows "py_get (JObj kvs) ''length'' (JNum 0) = Inr (JNum 0)
         \<and> handle_audio_validation S (JObj kvs) =
             ([], Inr (JObj [(''message'', JStr text)], 200))"
  using assms by (simp add: handler_object)

theorem absent_length_passes_through_witness:
  "map_of [(''text'', JStr ''hello world'')] ''length'' = None
   \<and> map_of [(''text'', JStr ''hello world'')] ''text'' = Some (JStr ''hello world'')
   \<and> ''hello world'' \<noteq> []
   \<and> handle_audio_validation failing_summarizer (JObj [(''text'', JStr ''hello world'')]) =
       ([], Inr (JObj [(''message'', JStr ''hello world'')], 200))"
  using absent_length_passes_through
    [of "[(''text'', JStr ''hello world'')]" "''hello world''" failing_summarizer]
  by simp

text \<open>
  Claim C2, amended. When the gate answers a text with that same text as the message,
  gating the answer again with a duration \<open>d'\<close> of at most 60 seconds gives the same
  answer. (With \<open>d' > 60\<close> the second pass hands the text to the summarizer.)
\<close>

theorem regate_pass_through:
  assumes "snd (gate S text d) = Inr (JObj [(''message'', JStr text)], 200)"
    and "d' \<le> 60"
  shows "gate S text d' = ([], Inr (JObj [(''message'', JStr text)], 200))
         \<and> snd (gate S text d') = snd (gate S text d)"
proof -
  have "text \<noteq> []" using assms(1) by (rule gate_success_nonempty_text)
  then have "gate S text d' = ([], Inr (JObj [(''message'', JStr text)], 200))"
    using assms(2) by (rule gate_pass_through)
  with assms(1) show ?thesis by simp
qed

theorem regate_pass_through_witness:
  "snd (gate (fixed_summarizer ''hi'') ''hello world'' 10) =
     Inr (JObj [(''message'', JStr ''hello world'')], 200)
   \<and> (20::real) \<le> 60
   \<and> snd (gate (fixed_summarizer ''hi'') ''hello world'' 20) =
       snd (gate (fixed_summarizer ''hi'') ''hello world'' 10)"
proof -
  have h: "snd (gate (fixed_summarizer ''hi'') ''hello world'' 10) =
     Inr (JObj [(''message'', JStr ''hello world'')], 200)"
    by (simp add: gate_pass_through)
  show ?thesis
    using h regate_pass_through [OF h, of 20] by simp
qed

text \<open>
  Claim C2 as stated fails: a text that passed through with duration 10 is summarized
  when it is gated again with duration 61.
\<close>

theorem regate_counterexample:
  "snd (gate (fixed_summarizer ''hi'') ''hello world'' 10) =
     Inr (JObj [(''message'', JStr ''hello world'')], 200)
   \<and> snd (gate (fixed_summarizer ''hi'') ''hello world'' 61) =
       Inr (JObj [(''message'', JStr ''hi'')], 200)
   \<and> snd (gate (fixed_summarizer ''hi'') ''hello world'' 61) \<noteq>
       snd (gate (fixed_summarizer ''hi'') ''hello world'' 10)"
proof -
  have t: "trim_text_middle (JStr ''hello world'') (1 / 2) = Inr ''hello world''"
    by (simp add: trim_short str_split_hello)
  have a: "snd (gate (fixed_summarizer ''hi'') ''hello world'' 10) =
     Inr (JObj [(''message'', JStr ''hello world'')], 200)"
    by (simp add: gate_pass_through)
  have b: "snd (gate (fixed_summarizer ''hi'') ''hello world'' 61) =
     Inr (JObj [(''message'', JStr ''hi'')], 200)"
    using gate_reduce [OF _ _ t, of 61 "fixed_summarizer ''hi''"]
    by (simp add: summary_text_fixed)
  show ?thesis unfolding a b by simp
qed

section \<open>The reduce path\<close>




text \<open>
  Claim C8. On the reduce path (a non-empty text, a duration above 60 seconds) the gate
  makes exactly one summarizer call, on the trimmed text with \<open>max_length = 100\<close>,
  \<open>min_length = 50\<close> and sampling off, and answers with the \<open>summary_text\<close> of the
  first summary returned.
\<close>

theorem reduce_calls_summarizer:
  assumes "text \<noteq> []" and "60 < d"
    and "trim_text_middle (JStr text) (1 / 2) = Inr trimmed"
  shows "fst (gate S text d) =
           [\<lparr>call_text = trimmed, max_length = 100, min_length = 50, do_sample = False\<rparr>]
         \<and> (\<forall>r rest s. S trimmed 100 50 False = Inr (r # rest)
               \<longrightarrow> map_of r ''summary_text'' = Some s
               \<longrightarrow> snd (gate S text d) = Inr (JObj [(''message'', JStr s)], 200))"
  by (simp add: gate_reduce [OF assms] summary_text_def)

theorem reduce_calls_summarizer_witness:
  "concat (replicate 300 ''ab '') \<noteq> [] \<and> (60::real) < 120
   \<and> trim_text_middle (JStr (concat (replicate 300 ''ab ''))) (1 / 2) =
       Inr (str_join '' '' (replicate 150 ''ab''))
   \<and> fixed_summarizer ''hi'' (str_join '' '' (replicate 150 ''ab'')) 100 50 False =
       Inr [[(''summary_text'', ''hi'')]]
   \<and> map_of [(''summary_text'', ''hi'')] ''summary_text'' = Some ''hi''
   \<and> fst (gate (fixed_summarizer ''hi'') (concat (replicate 300 ''ab '')) 120) =
       [\<lparr>call_text = str_join '' '' (replicate 150 ''ab''), max_length = 100,
         min_length = 50, do_sample = False\<rparr>]
   \<and> snd (gate (fixed_summarizer ''hi'') (concat (replicate 300 ''ab '')) 120) =
       Inr (JObj [(''message'', JStr ''hi'')], 200)"
proof -
  have n: "concat (replicate 300 ''ab '') \<noteq> []" by (rule text_300_nonempty)
  have l: "(60::real) < 120" by simp
  have f: "fixed_summarizer ''hi'' (str_join '' '' (replicate 150 ''ab'')) 100 50 False =
      Inr [[(''summary_text'', ''hi'')]]"
    unfolding fixed_summarizer_def by (rule refl)
  have m: "map_of [(''summary_text'', ''hi'')] ''summary_text'' = Some ''hi''" by simp
  note r = reduce_calls_summarizer [where S = "fixed_summarizer ''hi''", OF n l trim_300_words]
  from r have c: "fst (gate (fixed_summarizer ''hi'') (concat (replicate 300 ''ab '')) 120) =
       [\<lparr>call_text = str_join '' '' (replicate 150 ''ab''), max_length = 100,
         min_length = 50, do_sample = False\<rparr>]" by (rule conjunct1)
  from r have "\<forall>r rest s.
      fixed_summarizer ''hi'' (str_join '' '' (replicate 150 ''ab'')) 100 50 False = Inr (r # rest)
      \<longrightarrow> map_of r ''summary_text'' = Some s
      \<longrightarrow> snd (gate (fixed_summarizer ''hi'') (concat (replicate 300 ''ab '')) 120) =
          Inr (JObj [(''message'', JStr s)], 200)" by (rule conjunct2)
  then have s: "snd (gate (fixed_summarizer ''hi'') (concat (replicate 300 ''ab '')) 120) =
       Inr (JObj [(''message'', JStr ''hi'')], 200)"
    using f m by (elim allE impE)
  show ?thesis by (intro conjI n l trim_300_words f m c s)
qed

text \<open>
  Claim C7. When the summarizer raises on a reduce-path request, the exception leaves
  the handler: the gate returns no response at all, so neither the original text nor
  an empty string stands in for the error.
\<close>

theorem summarizer_error_surfaces:
  assumes "text \<noteq> []" and "60 < d"
    and "trim_text_middle (JStr text) (1 / 2) = Inr trimmed"
    and "S trimmed 100 50 False = Inl e"
  shows "gate S text d =
           ([\<lparr>call_text = trimmed, max_length = 100, min_length = 50, do_sample = False\<rparr>],
            Inl e)
         \<and> snd (gate S text d) \<noteq> Inr (JObj [(''message'', JStr text)], 200)
         \<and> snd (gate S text d) \<noteq> Inr (JObj [(''message'', JStr [])], 200)
         \<and> (\<nexists>r. snd (gate S text d) = Inr r)"
proof -
  have "summary_text S trimmed = Inl e"
    using assms(4) by (simp add: summary_text_def)
  then show ?thesis
    by (simp add: gate_reduce [OF assms(1) assms(2) assms(3)])
qed

theorem summarizer_error_surfaces_witness:
  "concat (replicate 300 ''ab '') \<noteq> [] \<and> (60::real) < 120
   \<and> trim_text_middle (JStr (concat (replicate 300 ''ab ''))) (1 / 2) =
       Inr (str_join '' '' (replicate 150 ''ab''))
   \<and> failing_summarizer (str_join '' '' (replicate 150 ''ab'')) 100 50 False =
       Inl (Exception ''summarizer unavailable'')
   \<and> gate failing_summarizer (concat (replicate 300 ''ab '')) 120 =
       ([\<lparr>call_text = str_join '' '' (replicate 150 ''ab''), max_length = 100,
          min_length = 50, do_sample = False\<rparr>],
        Inl (Exception ''summarizer unavailable''))"
proof -
  have n: "concat (replicate 300 ''ab '') \<noteq> []" by (rule text_300_nonempty)
  have l: "(60::real) < 120" by simp
  have f: "failing_summarizer (str_join '' '' (replicate 150 ''ab'')) 100 50 False =
       Inl (Exception ''summarizer unavailable'')"
    unfolding failing_summarizer_def by (rule refl)
  have g: "gate failing_summarizer (concat (replicate 300 ''ab '')) 120 =
       ([\<lparr>call_text = str_join '' '' (replicate 150 ''ab''), max_length = 100,
          min_length = 50, do_sample = False\<rparr>],
        Inl (Exception ''summarizer unavailable''))"
    using summarizer_error_surfaces [where S = failing_summarizer, OF n l trim_300_words f]
    by (rule conjunct1)
  show ?thesis by (intro conjI n l trim_300_words f g)
qed

text \<open>
  Claim C3, amended. For a non-empty text, a success message is empty exactly when the
  request is on the reduce path and the summarizer's \<open>summary_text\<close> is the empty
  string: the gate passes an empty summary on as the message. In every other case the
  success message is non-empty.
\<close>

theorem success_message_empty_iff:
  assumes "text \<noteq> []"
    and "snd (gate S text d) = Inr (JObj [(''message'', JStr m)], 200)"
  shows "m = [] \<longleftrightarrow>
           60 < d \<and> (\<exists>trimmed. trim_text_middle (JStr text) (1 / 2) = Inr trimmed
                        \<and> summary_text S trimmed = Inr [])"
proof (cases "d \<le> 60")
  case True
  then have "gate S text d = ([], Inr (JObj [(''message'', JStr text)], 200))"
    using assms(1) by (simp add: gate_pass_through)
  with assms True show ?thesis by simp
next
  case False
  then have d: "60 < d" by simp
  obtain trimmed where t: "trim_text_middle (JStr text) (1 / 2) = Inr trimmed"
    using trim_text_middle_total by blast
  have "snd (gate S text d) =
      (case summary_text S trimmed of
         Inl e \<Rightarrow> Inl e
       | Inr summary \<Rightarrow> Inr (JObj [(''message'', JStr summary)], 200))"
    by (simp add: gate_reduce [OF assms(1) d t])
  with assms(2) have "summary_text S trimmed = Inr m"
    by (simp split: sum.splits)
  with d t show ?thesis by auto
qed

theorem success_message_empty_iff_witness:
  "''hello world'' \<noteq> []
   \<and> snd (gate (fixed_summarizer ''hi'') ''hello world'' 61) =
       Inr (JObj [(''message'', JStr ''hi'')], 200)
   \<and> \<not> (\<exists>trimmed. trim_text_middle (JStr ''hello world'') (1 / 2) = Inr trimmed
            \<and> summary_text (fixed_summarizer ''hi'') trimmed = Inr [])"
proof -
  have t: "trim_text_middle (JStr ''hello world'') (1 / 2) = Inr ''hello world''"
    by (simp add: trim_short str_split_hello)
  have h: "snd (gate (fixed_summarizer ''hi'') ''hello world'' 61) =
     Inr (JObj [(''message'', JStr ''hi'')], 200)"
    using gate_reduce [OF _ _ t, of 61 "fixed_summarizer ''hi''"]
    by (simp add: summary_text_fixed)
  show ?thesis
    using h success_message_empty_iff [OF _ h] by simp
qed

text \<open>
  Claim C3 as stated fails: when the summarizer returns an empty summary, the gate
  answers a non-empty text with the empty message.
\<close>

theorem empty_summary_counterexample:
  "''hello world'' \<noteq> []
   \<and> gate (fixed_summarizer []) ''hello world'' 61 =
       ([\<lparr>call_text = ''hello world'', max_length = 100, min_length = 50,
          do_sample = False\<rparr>],
        Inr (JObj [(''message'', JStr [])], 200))"
proof -
  have t: "trim_text_middle (JStr ''hello world'') (1 / 2) = Inr ''hello world''"
    by (simp add: trim_short str_split_hello)
  show ?thesis
    using gate_reduce [OF _ _ t, of 61 "fixed_summarizer []"]
    by (simp add: summary_text_fixed)
qed

section \<open>The middle trim\<close>

text \<open>
  Claim C6. For a text of \<open>w > 150\<close> words, with \<open>trim_size = \<lfloor>w * 0.5\<rfloor>\<close>,
  \<open>start = \<lfloor>(w - trim_size) / 2\<rfloor>\<close> and \<open>end = start + trim_size\<close>, the trim returns the
  words \<open>start\<close> up to \<open>end - 1\<close> joined by single spaces, which is what the gate hands to
  the summarizer on the reduce path; the result splits into these \<open>trim_size\<close> words
  again. For \<open>w = 300\<close> the window is the words 75 up to 224, 150 words.
\<close>

theorem trim_middle_window:
  assumes "words = str_split text" and "w = int (length words)" and "150 < w"
    and "trim_size = \<lfloor>real_of_int w * 0.5\<rfloor>"
    and "start = \<lfloor>real_of_int (w - trim_size) / 2\<rfloor>"
    and "end = start + trim_size"
    and "window = take (nat (end - start)) (drop (nat start) words)"
    and "60 < d"
  shows "trim_text_middle (JStr text) (1 / 2) = Inr (str_join '' '' window)
         \<and> fst (gate S text d) =
             [\<lparr>call_text = str_join '' '' window, max_length = 100, min_length = 50,
               do_sample = False\<rparr>]
         \<and> 0 \<le> start \<and> start \<le> end \<and> end \<le> w
         \<and> int (length window) = trim_size
         \<and> (\<forall>i<length window. window ! i = words ! (nat start + i))
         \<and> str_split (str_join '' '' window) = window
         \<and> (w = 300 \<longrightarrow> start = 75 \<and> end = 225 \<and> length window = 150)"
proof -
  have ts: "trim_size = w div 2"
    using assms(4) floor_divide_of_int_eq [of w 2, where ?'a = real] by simp
  have st: "start = (w - trim_size) div 2"
    using assms(5) floor_divide_of_int_eq [of "w - trim_size" 2, where ?'a = real] by simp
  have bounds: "0 \<le> start" "start \<le> end" "end \<le> w"
    using assms(3,6) ts st by simp_all
  have pi: "py_int (of_int w * (1 / 2)) = trim_size"
    using py_int_half [of w] assms(3) ts by simp
  have sl: "py_slice words start end = window"
    using bounds assms(2,7) by (simp add: py_slice_inside)
  have long: "\<not> length words \<le> 150"
    using assms(2,3) by simp
  have trim: "trim_text_middle (JStr text) (1 / 2) = Inr (str_join '' '' window)"
    using long sl pi
    by (simp add: trim_text_middle_def Let_def assms(1)[symmetric] assms(2)[symmetric]
        st [symmetric] assms(6)[symmetric])
  have len: "int (length window) = trim_size"
    using bounds assms(2,6,7) by simp
  have nth: "\<forall>i<length window. window ! i = words ! (nat start + i)"
  proof -
    have "nat start \<le> length words"
      using bounds assms(2) by simp
    then show ?thesis using assms(7) by simp
  qed
  have "list_all is_word window"
    unfolding assms(7) assms(1) by (rule list_all_take_drop) (rule str_split_words)
  then have rt: "str_split (str_join '' '' window) = window"
    by (rule str_split_join)
  have w300: "w = 300 \<longrightarrow> start = 75 \<and> end = 225 \<and> length window = 150"
    using ts st assms(6) len by auto
  have "text \<noteq> []"
    using assms(1,2,3) by (auto simp add: str_split_def)
  then have call: "fst (gate S text d) =
      [\<lparr>call_text = str_join '' '' window, max_length = 100, min_length = 50,
        do_sample = False\<rparr>]"
    using gate_reduce [OF _ assms(8) trim, of S] by simp
  show ?thesis using trim call bounds len nth rt w300 by blast
qed

text \<open>A text of 300 words.\<close>

theorem trim_middle_window_witness:
  "int (length (str_split (concat (replicate 300 ''ab '')))) = 300
   \<and> (60::real) < 120
   \<and> trim_text_middle (JStr (concat (replicate 300 ''ab ''))) (1 / 2) =
       Inr (str_join '' '' (take 150 (drop 75 (str_split (concat (replicate 300 ''ab ''))))))
   \<and> fst (gate failing_summarizer (concat (replicate 300 ''ab '')) 120) =
       [\<lparr>call_text =
           str_join '' '' (take 150 (drop 75 (str_split (concat (replicate 300 ''ab ''))))),
         max_length = 100, min_length = 50, do_sample = False\<rparr>]
   \<and> length (take 150 (drop 75 (str_split (concat (replicate 300 ''ab ''))))) = 150"
proof -
  let ?T = "concat (replicate 300 ''ab '')"
  have a1: "str_split ?T = str_split ?T" by (rule refl)
  have a2: "300 = int (length (str_split ?T))" by (simp add: str_split_replicate)
  have a3: "(150::int) < 300" by simp
  have a4: "(150::int) = \<lfloor>real_of_int 300 * 0.5\<rfloor>" by simp
  have a5: "(75::int) = \<lfloor>real_of_int (300 - 150) / 2\<rfloor>" by simp
  have a6: "(225::int) = 75 + 150" by simp
  have a7: "take 150 (drop 75 (str_split ?T)) =
      take (nat (225 - 75)) (drop (nat 75) (str_split ?T))" by simp
  have a8: "(60::real) < 120" by simp
  note r = trim_middle_window [where S = failing_summarizer, OF a1 a2 a3 a4 a5 a6 a7 a8]
  from r have c1: "trim_text_middle (JStr ?T) (1 / 2) =
      Inr (str_join '' '' (take 150 (drop 75 (str_split ?T))))" by (rule conjunct1)
  from r have c2: "fst (gate failing_summarizer ?T 120) =
       [\<lparr>call_text = str_join '' '' (take 150 (drop 75 (str_split ?T))),
         max_length = 100, min_length = 50, do_sample = False\<rparr>]" by blast
  from r have c3: "length (take 150 (drop 75 (str_split ?T))) = 150" by blast
  show ?thesis using a2 a8 c1 c2 c3 by simp
qed

end
